theory Spec2Isabelle
  imports Complex_Main "HOL-Library.Log_Nat"
begin

section \<open>Python values\<close>

text \<open>
  The backend is one Python module, \<^verbatim>\<open>hack/backend/main.py\<close>. Its handlers work on
  what \<^verbatim>\<open>json.loads\<close> produces: \<^verbatim>\<open>None\<close>, booleans, unbounded integers, floats,
  strings, lists and dictionaries. A dictionary is an association list read with
  \<^const>\<open>map_of\<close>; a Python dictionary has no duplicate keys, so the first match is the
  only one.

  A Python float is an IEEE 754 binary64 number. A finite one is represented by its exact
  rational value (the sign of zero is not kept: no operation of the module tells the two
  zeros apart, except for echoing the input back).
\<close>

datatype pyfloat = Finite rat | PosInf | NegInf | NaN

datatype pyval =
    PyNone
  | PyBool bool
  | PyInt int
  | PyFloat pyfloat
  | PyStr string
  | PyList "pyval list"
  | PyDict "(string \<times> pyval) list"

text \<open>
  The exceptions that can arise in the handlers. \<^verbatim>\<open>fastapi.HTTPException\<close> is, like
  every one of them, a subclass of \<^verbatim>\<open>Exception\<close>. \<open>RequestsError\<close> stands for whatever
  the \<^verbatim>\<open>requests\<close> library raises (connection failure, undecodable body).
\<close>

datatype exn =
    HTTPException int string
  | AttributeError
  | TypeError
  | OverflowError
  | ValueError
  | RequestsError string

section \<open>Binary64 arithmetic\<close>

text \<open>\<open>expo x\<close> is the binary exponent of \<open>x \<noteq> 0\<close>: \<open>2 powi expo x \<le> \<bar>x\<bar> < 2 powi (expo x + 1)\<close>.\<close>

definition expo :: "rat \<Rightarrow> int" where
  "expo x = (if 1 \<le> \<bar>x\<bar> then bitlen \<lfloor>\<bar>x\<bar>\<rfloor> - 1 else - bitlen (\<lceil>1 / \<bar>x\<bar>\<rceil> - 1))"

text \<open>Rounding to the nearest integer, ties to the even one.\<close>

definition rne :: "rat \<Rightarrow> int" where
  "rne x = (let f = \<lfloor>x\<rfloor>; d = x - of_int f in
     if d < 1 / 2 then f
     else if 1 / 2 < d then f + 1
     else if even f then f else f + 1)"

text \<open>
  Rounding a rational to binary64, to nearest, ties to even. A binary64 number has 53
  significant bits, so around \<open>x\<close> the representable numbers are the multiples of
  \<open>ulp x\<close>; the least exponent of a normal number is \<open>- 1022\<close>, and below it the spacing
  stays \<open>2 powi (- 1074)\<close>. A result of magnitude \<open>2 ^ 1024\<close> or more overflows.
\<close>

definition ulp :: "rat \<Rightarrow> rat" where
  "ulp x = 2 powi (max (expo x) (- 1022) - 52)"

definition round_ulp :: "rat \<Rightarrow> rat" where
  "round_ulp x = of_int (rne (x / ulp x)) * ulp x"

definition b64 :: "rat \<Rightarrow> pyfloat" where
  "b64 x = (let y = round_ulp x in
     if 2 ^ 1024 \<le> \<bar>y\<bar> then (if 0 < x then PosInf else NegInf) else Finite y)"

text \<open>An infinity times a finite number \<open>s\<close>; \<open>pos\<close> is the sign of the infinity.\<close>

definition inf_times :: "bool \<Rightarrow> rat \<Rightarrow> pyfloat" where
  "inf_times pos s = (if s = 0 then NaN else if (0 < s) = pos then PosInf else NegInf)"

fun fmul :: "pyfloat \<Rightarrow> pyfloat \<Rightarrow> pyfloat" where
  "fmul NaN _ = NaN"
| "fmul _ NaN = NaN"
| "fmul (Finite x) (Finite y) = b64 (x * y)"
| "fmul (Finite x) PosInf = inf_times True x"
| "fmul (Finite x) NegInf = inf_times False x"
| "fmul PosInf (Finite y) = inf_times True y"
| "fmul NegInf (Finite y) = inf_times False y"
| "fmul PosInf PosInf = PosInf"
| "fmul NegInf NegInf = PosInf"
| "fmul PosInf NegInf = NegInf"
| "fmul NegInf PosInf = NegInf"

fun fadd :: "pyfloat \<Rightarrow> pyfloat \<Rightarrow> pyfloat" where
  "fadd NaN _ = NaN"
| "fadd _ NaN = NaN"
| "fadd (Finite x) (Finite y) = b64 (x + y)"
| "fadd PosInf NegInf = NaN"
| "fadd NegInf PosInf = NaN"
| "fadd PosInf _ = PosInf"
| "fadd _ PosInf = PosInf"
| "fadd NegInf _ = NegInf"
| "fadd _ NegInf = NegInf"

text \<open>\<^verbatim>\<open>x < n\<close> for a float \<open>x\<close> and an integer \<open>n\<close>: Python compares the exact values.\<close>

fun lt_int :: "pyfloat \<Rightarrow> int \<Rightarrow> bool" where
  "lt_int (Finite x) n = (x < of_int n)"
| "lt_int NegInf n = True"
| "lt_int PosInf n = False"
| "lt_int NaN n = False"

text \<open>\<^verbatim>\<open>x <= y\<close> on floats.\<close>

fun fle :: "pyfloat \<Rightarrow> pyfloat \<Rightarrow> bool" where
  "fle NaN _ = False"
| "fle _ NaN = False"
| "fle NegInf _ = True"
| "fle _ PosInf = True"
| "fle (Finite x) (Finite y) = (x \<le> y)"
| "fle _ _ = False"

text \<open>
  \<^verbatim>\<open>float(n)\<close> as the arithmetic operators apply it to an integer operand: correctly
  rounded, \<^verbatim>\<open>OverflowError\<close> when the integer is too large.
\<close>

definition float_of_int :: "int \<Rightarrow> exn + pyfloat" where
  "float_of_int n = (case b64 (of_int n) of Finite x \<Rightarrow> Inr (Finite x) | _ \<Rightarrow> Inl OverflowError)"

text \<open>
  \<^verbatim>\<open>round(x)\<close> with one argument: the nearest integer, ties to even;
  \<^verbatim>\<open>ValueError\<close> on a NaN and \<^verbatim>\<open>OverflowError\<close> on an infinity.
\<close>

fun py_round :: "pyfloat \<Rightarrow> exn + int" where
  "py_round (Finite x) = Inr (rne x)"
| "py_round NaN = Inl ValueError"
| "py_round _ = Inl OverflowError"

section \<open>Dictionary access and the catch-all handler\<close>

text \<open>\<^verbatim>\<open>d.get(k, default)\<close> on a dictionary.\<close>

definition dict_get :: "(string \<times> pyval) list \<Rightarrow> string \<Rightarrow> pyval \<Rightarrow> pyval" where
  "dict_get d k dflt = (case map_of d k of Some v \<Rightarrow> v | None \<Rightarrow> dflt)"

text \<open>
  \<^verbatim>\<open>v.get(k, default)\<close> on any value: of the values JSON produces only a dictionary
  has a \<^verbatim>\<open>get\<close> attribute.
\<close>

fun py_get :: "pyval \<Rightarrow> string \<Rightarrow> pyval \<Rightarrow> exn + pyval" where
  "py_get (PyDict d) k dflt = Inr (dict_get d k dflt)"
| "py_get _ k dflt = Inl AttributeError"

text \<open>
  \<^verbatim>\<open>a * m\<close> for a float \<open>m\<close>: an integer (a boolean is one) is converted to a float
  first; \<^verbatim>\<open>None\<close>, strings, lists and dictionaries raise \<^verbatim>\<open>TypeError\<close>.
\<close>

fun mul_float :: "pyval \<Rightarrow> pyfloat \<Rightarrow> exn + pyfloat" where
  "mul_float (PyInt n) m =
     (case float_of_int n of Inl e \<Rightarrow> Inl e | Inr a \<Rightarrow> Inr (fmul a m))"
| "mul_float (PyBool b) m =
     (case float_of_int (if b then 1 else 0) of Inl e \<Rightarrow> Inl e | Inr a \<Rightarrow> Inr (fmul a m))"
| "mul_float (PyFloat a) m = Inr (fmul a m)"
| "mul_float _ m = Inl TypeError"

text \<open>
  \<^verbatim>\<open>try: ... except Exception as e: raise HTTPException(status_code=500, detail=str(e))\<close>.
  \<open>str_of\<close> is Python's \<^verbatim>\<open>str\<close> on exceptions.
\<close>

definition except_500 :: "(exn \<Rightarrow> string) \<Rightarrow> exn + 'a \<Rightarrow> exn + 'a" where
  "except_500 str_of r =
     (case r of Inl e \<Rightarrow> Inl (HTTPException 500 (str_of e)) | Inr v \<Rightarrow> Inr v)"

section \<open>Request models\<close>

record UserProfile =
  user_id :: string
  condition :: string
  smoke :: bool
  drink :: bool
  air_data :: "(string \<times> pyval) list option"

record DiagnosticRequest =
  user_id :: string
  air_data :: "(string \<times> pyval) list"
  condition :: string
  smoke :: bool
  drink :: bool

section \<open>The diagnostic endpoint\<close>

definition condition_multipliers :: "(string \<times> pyfloat) list" where
  "condition_multipliers =
     [(''Healthy'', Finite 1), (''Asthma'', Finite (5 / 2)), (''COPD'', Finite 4)]"

text \<open>\<^verbatim>\<open>condition_multipliers.get(request.condition, 1.0)\<close>\<close>

definition multiplier :: "string \<Rightarrow> pyfloat" where
  "multiplier c = (case map_of condition_multipliers c of Some m \<Rightarrow> m | None \<Rightarrow> Finite 1)"

text \<open>\<^verbatim>\<open>air.get("main", {}).get("aqi", 1)\<close>\<close>

definition get_aqi :: "(string \<times> pyval) list \<Rightarrow> exn + pyval" where
  "get_aqi air = py_get (dict_get air ''main'' (PyDict [])) ''aqi'' (PyInt 1)"

text \<open>The two lifestyle additions to the score (\<^verbatim>\<open>score += 80\<close>, \<^verbatim>\<open>score += 20\<close>).\<close>

definition lifestyle :: "bool \<Rightarrow> bool \<Rightarrow> pyfloat \<Rightarrow> pyfloat" where
  "lifestyle sm dr score0 =
     (let score1 = (if sm then fadd score0 (Finite 80) else score0)
      in if dr then fadd score1 (Finite 20) else score1)"

text \<open>The score as it stands before \<^verbatim>\<open>round\<close>, for a given value of \<^verbatim>\<open>aqi\<close>.\<close>

definition score_of :: "pyval \<Rightarrow> string \<Rightarrow> bool \<Rightarrow> bool \<Rightarrow> exn + pyfloat" where
  "score_of aqi c sm dr =
     (case mul_float aqi (multiplier c) of
        Inl e \<Rightarrow> Inl e
      | Inr score0 \<Rightarrow> Inr (lifestyle sm dr score0))"

text \<open>The \<^verbatim>\<open>if score < 50 ... elif ... else\<close> chain: risk level and base recommendation.\<close>

definition risk :: "pyfloat \<Rightarrow> string \<times> string" where
  "risk score =
     (if lt_int score 50 then
        (''Low'', ''Air quality is good. Maintain your healthy lifestyle.'')
      else if lt_int score 100 then
        (''Moderate'', ''Air quality is moderate. Consider limiting outdoor activities if you have respiratory issues.'')
      else if lt_int score 150 then
        (''High'', ''Air quality is unhealthy. Limit outdoor exposure and use protective measures.'')
      else if lt_int score 200 then
        (''Very High'', ''Air quality is very unhealthy. Avoid outdoor activities.'')
      else
        (''Hazardous'', ''Air quality is hazardous. Stay indoors and use air purification.''))"

text \<open>The condition-specific and the smoking-specific additions to the recommendation.\<close>

definition advice :: "string \<Rightarrow> bool \<Rightarrow> string \<Rightarrow> string" where
  "advice c sm recommendation0 =
     (let recommendation1 =
        (if c = ''Asthma'' then recommendation0 @ '' Keep your inhaler accessible.''
         else if c = ''COPD'' then recommendation0 @ '' Monitor your oxygen levels closely.''
         else recommendation0)
      in if sm then recommendation1 @ '' Smoking significantly degrades your alveolar capacity.''
         else recommendation1)"

text \<open>
  The body of the \<^verbatim>\<open>try\<close> block of \<^verbatim>\<open>run_diagnostic\<close>, as a function of the four
  fields of the request that it reads.
\<close>

definition diagnostic_body ::
  "(string \<times> pyval) list \<Rightarrow> string \<Rightarrow> bool \<Rightarrow> bool \<Rightarrow> exn + pyval" where
  "diagnostic_body air c sm dr =
     (case get_aqi air of Inl e \<Rightarrow> Inl e | Inr aqi \<Rightarrow>
     (let components = dict_get air ''components'' (PyDict []) in
      case py_get components ''pm2_5'' (PyInt 0) of Inl e \<Rightarrow> Inl e | Inr pm25 \<Rightarrow>
     (case py_get components ''no2'' (PyInt 0) of Inl e \<Rightarrow> Inl e | Inr no2 \<Rightarrow>
     (case py_get components ''so2'' (PyInt 0) of Inl e \<Rightarrow> Inl e | Inr so2 \<Rightarrow>
     (case py_get components ''co'' (PyInt 0) of Inl e \<Rightarrow> Inl e | Inr co \<Rightarrow>
     (case score_of aqi c sm dr of Inl e \<Rightarrow> Inl e | Inr score \<Rightarrow>
     (let risk_level = fst (risk score);
          recommendation = advice c sm (snd (risk score))
      in case py_round score of
           Inl e \<Rightarrow> Inl e
         | Inr rounded \<Rightarrow>
             Inr (PyDict
               [(''score'', PyInt rounded),
                (''risk_level'', PyStr risk_level),
                (''recommendation'', PyStr recommendation),
                (''air_quality'', PyDict
                   [(''aqi'', aqi), (''pm25'', pm25), (''no2'', no2), (''so2'', so2),
                    (''co'', co)])]))))))))"

definition run_diagnostic :: "(exn \<Rightarrow> string) \<Rightarrow> DiagnosticRequest \<Rightarrow> exn + pyval" where
  "run_diagnostic str_of request =
     except_500 str_of
       (diagnostic_body (DiagnosticRequest.air_data request)
          (DiagnosticRequest.condition request) (DiagnosticRequest.smoke request)
          (DiagnosticRequest.drink request))"

text \<open>
  The score that \<^const>\<open>diagnostic_body\<close> computes before rounding it (the source's variable
  \<^verbatim>\<open>score\<close> as it stands when the \<^verbatim>\<open>if score < 50\<close> chain is reached).
\<close>

definition raw_score :: "DiagnosticRequest \<Rightarrow> exn + pyfloat" where
  "raw_score request =
     (case get_aqi (DiagnosticRequest.air_data request) of
        Inl e \<Rightarrow> Inl e
      | Inr aqi \<Rightarrow> score_of aqi (DiagnosticRequest.condition request)
                    (DiagnosticRequest.smoke request) (DiagnosticRequest.drink request))"

section \<open>The air-quality endpoints\<close>

definition API_KEY :: string where
  "API_KEY = ''8857f7ca2724295e25e5009a3be436f6''"

text \<open>
  The two URLs the module builds, kept as their parts: latitude, longitude, for the history
  the start and end of the window, and the key.
\<close>

datatype url =
    AirPollution pyfloat pyfloat string
  | AirPollutionHistory pyfloat pyfloat int int string

text \<open>
  What the handlers read of a \<^verbatim>\<open>requests.Response\<close>: \<^verbatim>\<open>ok\<close>, \<^verbatim>\<open>status_code\<close> and the
  outcome of \<^verbatim>\<open>json()\<close>, which raises on a body that is not JSON.
\<close>

record Response =
  ok :: bool
  status_code :: int
  json :: "exn + pyval"

text \<open>
  \<^verbatim>\<open>requests.get\<close> is a parameter: it returns a response or raises. So is the clock:
  \<^verbatim>\<open>datetime.now()\<close>, of which the module reads \<^verbatim>\<open>timestamp()\<close> and \<^verbatim>\<open>isoformat()\<close>.
\<close>

record datetime =
  timestamp :: rat
  isoformat :: string

text \<open>\<^verbatim>\<open>int(x)\<close> on a finite float truncates towards zero.\<close>

definition py_int :: "rat \<Rightarrow> int" where
  "py_int x = (if 0 \<le> x then \<lfloor>x\<rfloor> else \<lceil>x\<rceil>)"

definition get_air_quality ::
  "(exn \<Rightarrow> string) \<Rightarrow> (url \<Rightarrow> exn + Response) \<Rightarrow> pyfloat \<Rightarrow> pyfloat \<Rightarrow> exn + pyval" where
  "get_air_quality str_of requests_get lat lon =
     except_500 str_of
       (case requests_get (AirPollution lat lon API_KEY) of
          Inl e \<Rightarrow> Inl e
        | Inr response \<Rightarrow>
            if \<not> ok response then
              Inl (HTTPException (status_code response) ''Failed to fetch air quality data'')
            else json response)"

definition get_air_quality_history ::
  "(exn \<Rightarrow> string) \<Rightarrow> (url \<Rightarrow> exn + Response) \<Rightarrow> datetime \<Rightarrow> pyfloat \<Rightarrow> pyfloat \<Rightarrow> int
     \<Rightarrow> exn + pyval" where
  "get_air_quality_history str_of requests_get now lat lon hours =
     except_500 str_of
       (let end' = py_int (timestamp now);
            start = end' - hours * 3600
        in case requests_get (AirPollutionHistory lat lon start end' API_KEY) of
             Inl e \<Rightarrow> Inl e
           | Inr response \<Rightarrow>
               if \<not> ok response then
                 Inl (HTTPException (status_code response)
                        ''Failed to fetch air quality history'')
               else json response)"

section \<open>The profile store\<close>




section \<open>The application\<close>

text \<open>
  One constructor for each API route. For each request the environment gives the answer
  of the provider and the reading of the clock.
\<close>

datatype request =
    GetAirQuality pyfloat pyfloat
  | GetAirQualityHistory pyfloat pyfloat int
  | SaveUserProfile UserProfile
  | GetUserProfile string
  | RunDiagnostic DiagnosticRequest

record env =
  requests_get :: "url \<Rightarrow> exn + Response"
  now :: datetime




text \<open>
  Fixed inputs for running the model: a rendering of exceptions as text in place of
  Python's \<^verbatim>\<open>str\<close>, and a provider that answers every URL the same way.
\<close>

fun sample_str :: "exn \<Rightarrow> string" where
  "sample_str (HTTPException s d) = d"
| "sample_str AttributeError = ''AttributeError''"
| "sample_str TypeError = ''TypeError''"
| "sample_str OverflowError = ''OverflowError''"
| "sample_str ValueError = ''ValueError''"
| "sample_str (RequestsError m) = m"

definition always :: "exn + Response \<Rightarrow> url \<Rightarrow> exn + Response" where
  "always r u = r"

text \<open>
  A diagnostic request whose \<^verbatim>\<open>air_data\<close> is \<^verbatim>\<open>{"main": {"aqi": aqi}}\<close>, and the reading
  of one key of a response.
\<close>

definition sample_request :: "pyval \<Rightarrow> string \<Rightarrow> bool \<Rightarrow> bool \<Rightarrow> DiagnosticRequest" where
  "sample_request aqi c sm dr =
     \<lparr>DiagnosticRequest.user_id = ''u1'', air_data = [(''main'', PyDict [(''aqi'', aqi)])],
        condition = c, smoke = sm, drink = dr\<rparr>"

definition response_field :: "string \<Rightarrow> exn + pyval \<Rightarrow> exn + pyval" where
  "response_field k r = (case r of Inl e \<Rightarrow> Inl e | Inr v \<Rightarrow> py_get v k PyNone)"


section \<open>From the handler to the HTTP answer\<close>



section \<open>Running the model\<close>

lemma floor_rat_numeral_div [simp]:
  "\<lfloor>numeral a / numeral b :: rat\<rfloor> = numeral a div numeral b"
  using floor_divide_of_int_eq [of "numeral a" "numeral b", where ?'a = rat] by simp

lemmas float_eval =
  b64_def round_ulp_def ulp_def expo_def rne_def compute_bitlen Let_def float_of_int_def

lemmas diagnostic_eval =
  run_diagnostic_def diagnostic_body_def raw_score_def get_aqi_def dict_get_def score_of_def
  multiplier_def condition_multipliers_def lifestyle_def risk_def advice_def except_500_def
  sample_request_def response_field_def

lemma multiplier_other: "c \<noteq> ''Asthma'' \<Longrightarrow> c \<noteq> ''COPD'' \<Longrightarrow> multiplier c = Finite 1"
  by (simp add: multiplier_def condition_multipliers_def)

lemma multiplier_known:
  "multiplier ''Asthma'' = Finite (5 / 2)" "multiplier ''COPD'' = Finite 4"
  "multiplier ''Healthy'' = Finite 1"
  by (simp_all add: multiplier_def condition_multipliers_def)

lemma score_of_other:
  "c \<noteq> ''Asthma'' \<Longrightarrow> c \<noteq> ''COPD'' \<Longrightarrow> score_of aqi c sm dr = score_of aqi ''Healthy'' sm dr"
  by (simp add: score_of_def multiplier_other multiplier_known)

lemma advice_other:
  "c \<noteq> ''Asthma'' \<Longrightarrow> c \<noteq> ''COPD'' \<Longrightarrow> advice c sm r = advice ''Healthy'' sm r"
  by (simp add: advice_def)

lemma body_other:
  assumes "c \<noteq> ''Asthma''" "c \<noteq> ''COPD''"
  shows "diagnostic_body air c sm dr = diagnostic_body air ''Healthy'' sm dr"
  unfolding diagnostic_body_def
  by (simp only: score_of_other [OF assms] advice_other [OF assms])

text \<open>What a successful run of the body returns.\<close>

lemma body_success:
  "diagnostic_body air c sm dr = Inr res \<longleftrightarrow>
   (\<exists>aqi comps x. get_aqi air = Inr aqi \<and> dict_get air ''components'' (PyDict []) = PyDict comps \<and>
      score_of aqi c sm dr = Inr (Finite x) \<and>
      res = PyDict
          [(''score'', PyInt (rne x)),
           (''risk_level'', PyStr (fst (risk (Finite x)))),
           (''recommendation'', PyStr (advice c sm (snd (risk (Finite x))))),
           (''air_quality'', PyDict
               [(''aqi'', aqi), (''pm25'', dict_get comps ''pm2_5'' (PyInt 0)),
                (''no2'', dict_get comps ''no2'' (PyInt 0)),
                (''so2'', dict_get comps ''so2'' (PyInt 0)),
                (''co'', dict_get comps ''co'' (PyInt 0))])])"
proof (cases "get_aqi air")
  case (Inl e)
  then show ?thesis by (simp add: diagnostic_body_def)
next
  case aqi: (Inr aqi)
  show ?thesis
  proof (cases "dict_get air ''components'' (PyDict [])")
    case (PyDict comps)
    show ?thesis
    proof (cases "score_of aqi c sm dr")
      case (Inl e)
      then show ?thesis using aqi PyDict by (simp add: diagnostic_body_def)
    next
      case (Inr s)
      then show ?thesis using aqi PyDict
        by (cases s) (auto simp add: diagnostic_body_def Let_def)
    qed
  qed (simp_all add: diagnostic_body_def aqi)
qed

lemma run_success:
  "run_diagnostic str_of request = Inr v \<longleftrightarrow>
   diagnostic_body (DiagnosticRequest.air_data request) (DiagnosticRequest.condition request)
     (DiagnosticRequest.smoke request) (DiagnosticRequest.drink request) = Inr v"
  by (simp add: run_diagnostic_def except_500_def split: sum.splits)

lemma rne_cases:
  "rne x = \<lfloor>x\<rfloor> \<or> rne x = \<lfloor>x\<rfloor> + 1"
  by (simp add: rne_def Let_def)

lemma rne_nearest: "\<bar>x - of_int (rne x)\<bar> \<le> 1 / 2"
proof -
  have "of_int \<lfloor>x\<rfloor> \<le> x" "x < of_int \<lfloor>x\<rfloor> + 1"
    by linarith+
  then show ?thesis
    unfolding rne_def Let_def by (auto simp: abs_le_iff)
qed

lemma rne_tie_even:
  assumes "\<bar>x - of_int (rne x)\<bar> = 1 / 2"
  shows "even (rne x)"
proof -
  have fl: "of_int \<lfloor>x\<rfloor> \<le> x" "x < of_int \<lfloor>x\<rfloor> + 1"
    by linarith+
  show ?thesis
  proof (cases "x - of_int \<lfloor>x\<rfloor> < 1 / 2")
    case True
    then have "rne x = \<lfloor>x\<rfloor>" by (simp add: rne_def Let_def)
    with assms True fl show ?thesis by (simp add: abs_if split: if_splits)
  next
    case False
    show ?thesis
    proof (cases "1 / 2 < x - of_int \<lfloor>x\<rfloor>")
      case True
      then have "rne x = \<lfloor>x\<rfloor> + 1" using False by (simp add: rne_def Let_def)
      with assms True fl show ?thesis by (simp add: abs_if split: if_splits)
    next
      case notgt: False
      then show ?thesis using False by (simp add: rne_def Let_def)
    qed
  qed
qed

lemma rne_of_int [simp]: "rne (of_int n) = n"
  by (simp add: rne_def Let_def)

lemma rne_Ints: "x \<in> \<int> \<Longrightarrow> of_int (rne x) = x"
  by (auto elim!: Ints_cases)

section \<open>The condition multiplier\<close>

text \<open>
  Claim C4. The multiplier is 2.5 for the condition "Asthma", 4.0 for "COPD", and 1.0 for
  "Healthy" and for every other string: an unknown condition is no error, and the whole
  endpoint answers it as it answers "Healthy".
\<close>

theorem condition_multiplier:
  "multiplier ''Asthma'' = Finite (5 / 2) \<and> multiplier ''COPD'' = Finite 4 \<and>
   multiplier ''Healthy'' = Finite 1 \<and>
   (c \<noteq> ''Asthma'' \<and> c \<noteq> ''COPD'' \<longrightarrow>
      multiplier c = Finite 1 \<and>
      run_diagnostic str_of (request\<lparr>DiagnosticRequest.condition := c\<rparr>) =
      run_diagnostic str_of (request\<lparr>DiagnosticRequest.condition := ''Healthy''\<rparr>))"
  using body_other [of c "DiagnosticRequest.air_data request"
      "DiagnosticRequest.smoke request" "DiagnosticRequest.drink request"]
  by (simp add: multiplier_known multiplier_other run_diagnostic_def)

theorem condition_multiplier_witness:
  "''Bronchitis'' \<noteq> ''Asthma'' \<and> ''Bronchitis'' \<noteq> ''COPD'' \<and>
   multiplier ''Bronchitis'' = Finite 1 \<and>
   run_diagnostic sample_str
     \<lparr>DiagnosticRequest.user_id = ''u1'', air_data = [], condition = ''Bronchitis'',
        smoke = False, drink = False\<rparr> =
   run_diagnostic sample_str
     \<lparr>DiagnosticRequest.user_id = ''u1'', air_data = [], condition = ''Healthy'',
        smoke = False, drink = False\<rparr>"
  using condition_multiplier [of "''Bronchitis''" sample_str
    "\<lparr>DiagnosticRequest.user_id = ''u1'', air_data = [], condition = ''Healthy'',
        smoke = False, drink = False\<rparr>"]
  by simp

section \<open>The air-quality endpoints: errors\<close>

text \<open>
  Claim C1. When the provider answers with a non-success status \<open>s\<close>, the handler raises
  \<^verbatim>\<open>HTTPException(status_code=s)\<close> inside its own \<^verbatim>\<open>try\<close> block, whose
  \<^verbatim>\<open>except Exception\<close> clause catches it: the client receives status 500, with the text
  of the caught exception as the message, and never the provider's status. On a transport
  failure the client receives status 500 with the exception's text. Both endpoints behave
  alike.
\<close>

theorem air_quality_errors:
  "get_air_quality str_of (always (Inr \<lparr>ok = False, status_code = s, json = j\<rparr>)) lat lon =
     Inl (HTTPException 500 (str_of (HTTPException s ''Failed to fetch air quality data''))) \<and>
   get_air_quality_history str_of (always (Inr \<lparr>ok = False, status_code = s, json = j\<rparr>))
       dt lat lon hours =
     Inl (HTTPException 500 (str_of (HTTPException s ''Failed to fetch air quality history''))) \<and>
   get_air_quality str_of (always (Inl e)) lat lon = Inl (HTTPException 500 (str_of e)) \<and>
   get_air_quality_history str_of (always (Inl e)) dt lat lon hours =
     Inl (HTTPException 500 (str_of e))"
  by (simp add: get_air_quality_def get_air_quality_history_def always_def except_500_def
      Let_def)

section \<open>The profile store\<close>








section \<open>What the diagnostic response depends on\<close>

lemma get_aqi_main:
  "map_of air1 ''main'' = map_of air2 ''main'' \<Longrightarrow> get_aqi air1 = get_aqi air2"
  by (simp add: get_aqi_def dict_get_def)

text \<open>
  Claim C9. Let two requests agree on the \<^verbatim>\<open>main\<close> entry of the air data, on the condition
  and on both flags; their user identifiers and their pollutant components may differ.
  If the first is answered, and the components of the second are a dictionary (or absent),
  then the second is answered with the same score, risk level and recommendation; each
  response echoes the request's own components.
\<close>

theorem diagnostic_inputs:
  assumes main: "map_of (DiagnosticRequest.air_data r1) ''main'' =
                 map_of (DiagnosticRequest.air_data r2) ''main''"
    and c: "DiagnosticRequest.condition r1 = DiagnosticRequest.condition r2"
    and sm: "DiagnosticRequest.smoke r1 = DiagnosticRequest.smoke r2"
    and dr: "DiagnosticRequest.drink r1 = DiagnosticRequest.drink r2"
    and run1: "run_diagnostic str_of r1 = Inr v1"
    and comps2: "dict_get (DiagnosticRequest.air_data r2) ''components'' (PyDict []) = PyDict comps2"
  shows "\<exists>score risk_level recommendation aqi comps1.
     dict_get (DiagnosticRequest.air_data r1) ''components'' (PyDict []) = PyDict comps1 \<and>
     v1 = PyDict
       [(''score'', score), (''risk_level'', risk_level), (''recommendation'', recommendation),
        (''air_quality'', PyDict
           [(''aqi'', aqi), (''pm25'', dict_get comps1 ''pm2_5'' (PyInt 0)),
            (''no2'', dict_get comps1 ''no2'' (PyInt 0)),
            (''so2'', dict_get comps1 ''so2'' (PyInt 0)),
            (''co'', dict_get comps1 ''co'' (PyInt 0))])] \<and>
     run_diagnostic str_of r2 = Inr (PyDict
       [(''score'', score), (''risk_level'', risk_level), (''recommendation'', recommendation),
        (''air_quality'', PyDict
           [(''aqi'', aqi), (''pm25'', dict_get comps2 ''pm2_5'' (PyInt 0)),
            (''no2'', dict_get comps2 ''no2'' (PyInt 0)),
            (''so2'', dict_get comps2 ''so2'' (PyInt 0)),
            (''co'', dict_get comps2 ''co'' (PyInt 0))])])"
proof -
  from run1 obtain aqi comps1 x where
    aqi: "get_aqi (DiagnosticRequest.air_data r1) = Inr aqi"
    and comps1: "dict_get (DiagnosticRequest.air_data r1) ''components'' (PyDict []) = PyDict comps1"
    and x: "score_of aqi (DiagnosticRequest.condition r1) (DiagnosticRequest.smoke r1)
              (DiagnosticRequest.drink r1) = Inr (Finite x)"
    and v1: "v1 = PyDict
          [(''score'', PyInt (rne x)),
           (''risk_level'', PyStr (fst (risk (Finite x)))),
           (''recommendation'', PyStr (advice (DiagnosticRequest.condition r1)
               (DiagnosticRequest.smoke r1) (snd (risk (Finite x))))),
           (''air_quality'', PyDict
               [(''aqi'', aqi), (''pm25'', dict_get comps1 ''pm2_5'' (PyInt 0)),
                (''no2'', dict_get comps1 ''no2'' (PyInt 0)),
                (''so2'', dict_get comps1 ''so2'' (PyInt 0)),
                (''co'', dict_get comps1 ''co'' (PyInt 0))])]"
    unfolding run_success body_success by blast
  have aqi2: "get_aqi (DiagnosticRequest.air_data r2) = Inr aqi"
    using get_aqi_main [OF main] aqi by simp
  have "run_diagnostic str_of r2 = Inr (PyDict
          [(''score'', PyInt (rne x)),
           (''risk_level'', PyStr (fst (risk (Finite x)))),
           (''recommendation'', PyStr (advice (DiagnosticRequest.condition r1)
               (DiagnosticRequest.smoke r1) (snd (risk (Finite x))))),
           (''air_quality'', PyDict
               [(''aqi'', aqi), (''pm25'', dict_get comps2 ''pm2_5'' (PyInt 0)),
                (''no2'', dict_get comps2 ''no2'' (PyInt 0)),
                (''so2'', dict_get comps2 ''so2'' (PyInt 0)),
                (''co'', dict_get comps2 ''co'' (PyInt 0))])])"
    unfolding run_success body_success using aqi2 comps2 x c sm dr by simp
  with comps1 v1 show ?thesis by blast
qed

theorem diagnostic_inputs_witness:
  "run_diagnostic sample_str
     \<lparr>DiagnosticRequest.user_id = ''u1'',
        air_data = [(''main'', PyDict [(''aqi'', PyInt 3)]),
                    (''components'', PyDict [(''pm2_5'', PyInt 12)])],
        condition = ''Asthma'', smoke = False, drink = True\<rparr> =
   Inr (PyDict
     [(''score'', PyInt 28), (''risk_level'', PyStr ''Low''),
      (''recommendation'', PyStr
         ''Air quality is good. Maintain your healthy lifestyle. Keep your inhaler accessible.''),
      (''air_quality'', PyDict
         [(''aqi'', PyInt 3), (''pm25'', PyInt 12), (''no2'', PyInt 0), (''so2'', PyInt 0),
          (''co'', PyInt 0)])]) \<and>
   run_diagnostic sample_str
     \<lparr>DiagnosticRequest.user_id = ''u2'',
        air_data = [(''components'', PyDict [(''pm2_5'', PyInt 99), (''no2'', PyInt 7),
                                            (''o3'', PyInt 1)]),
                    (''main'', PyDict [(''aqi'', PyInt 3)])],
        condition = ''Asthma'', smoke = False, drink = True\<rparr> =
   Inr (PyDict
     [(''score'', PyInt 28), (''risk_level'', PyStr ''Low''),
      (''recommendation'', PyStr
         ''Air quality is good. Maintain your healthy lifestyle. Keep your inhaler accessible.''),
      (''air_quality'', PyDict
         [(''aqi'', PyInt 3), (''pm25'', PyInt 99), (''no2'', PyInt 7), (''so2'', PyInt 0),
          (''co'', PyInt 0)])])"
  using diagnostic_inputs [where str_of = sample_str
    and ?r1.0 = "\<lparr>DiagnosticRequest.user_id = ''u1'',
        air_data = [(''main'', PyDict [(''aqi'', PyInt 3)]),
                    (''components'', PyDict [(''pm2_5'', PyInt 12)])],
        condition = ''Asthma'', smoke = False, drink = True\<rparr>"
    and ?r2.0 = "\<lparr>DiagnosticRequest.user_id = ''u2'',
        air_data = [(''components'', PyDict [(''pm2_5'', PyInt 99), (''no2'', PyInt 7),
                                            (''o3'', PyInt 1)]),
                    (''main'', PyDict [(''aqi'', PyInt 3)])],
        condition = ''Asthma'', smoke = False, drink = True\<rparr>"
    and ?v1.0 = "PyDict
     [(''score'', PyInt 28), (''risk_level'', PyStr ''Low''),
      (''recommendation'', PyStr
         ''Air quality is good. Maintain your healthy lifestyle. Keep your inhaler accessible.''),
      (''air_quality'', PyDict
         [(''aqi'', PyInt 3), (''pm25'', PyInt 12), (''no2'', PyInt 0), (''so2'', PyInt 0),
          (''co'', PyInt 0)])]"
    and ?comps2.0 = "[(''pm2_5'', PyInt 99), (''no2'', PyInt 7), (''o3'', PyInt 1)]"]
  by (simp add: diagnostic_eval float_eval)

section \<open>Risk level, recommendation and rounding\<close>

text \<open>A successful run, read off the request.\<close>

lemma run_result:
  assumes "run_diagnostic str_of request = Inr v"
  obtains x aq where
    "raw_score request = Inr (Finite x)"
    "v = PyDict
          [(''score'', PyInt (rne x)),
           (''risk_level'', PyStr (fst (risk (Finite x)))),
           (''recommendation'', PyStr (advice (DiagnosticRequest.condition request)
               (DiagnosticRequest.smoke request) (snd (risk (Finite x))))),
           (''air_quality'', aq)]"
proof -
  from assms obtain aqi comps x where
    "get_aqi (DiagnosticRequest.air_data request) = Inr aqi"
    "score_of aqi (DiagnosticRequest.condition request) (DiagnosticRequest.smoke request)
              (DiagnosticRequest.drink request) = Inr (Finite x)"
    "v = PyDict
          [(''score'', PyInt (rne x)),
           (''risk_level'', PyStr (fst (risk (Finite x)))),
           (''recommendation'', PyStr (advice (DiagnosticRequest.condition request)
               (DiagnosticRequest.smoke request) (snd (risk (Finite x))))),
           (''air_quality'', PyDict
               [(''aqi'', aqi), (''pm25'', dict_get comps ''pm2_5'' (PyInt 0)),
                (''no2'', dict_get comps ''no2'' (PyInt 0)),
                (''so2'', dict_get comps ''so2'' (PyInt 0)),
                (''co'', dict_get comps ''co'' (PyInt 0))])]"
    unfolding run_success body_success by blast
  then show ?thesis
    using that by (simp add: raw_score_def)
qed

lemma boundary_runs:
  "\<exists>v. run_diagnostic sample_str (sample_request (PyInt 50) ''Healthy'' False False) = Inr v"
  "\<exists>v. run_diagnostic sample_str (sample_request (PyInt 100) ''Healthy'' False False) = Inr v"
  "\<exists>v. run_diagnostic sample_str (sample_request (PyInt 150) ''Healthy'' False False) = Inr v"
  "\<exists>v. run_diagnostic sample_str (sample_request (PyInt 200) ''Healthy'' False False) = Inr v"
  "\<exists>v. run_diagnostic sample_str
         (sample_request (PyFloat (Finite (99 / 2))) ''Healthy'' False False) = Inr v"
  by (simp_all add: diagnostic_eval float_eval)

lemma advice_append:
  "advice c sm r = r @
     (if c = ''Asthma'' then '' Keep your inhaler accessible.''
      else if c = ''COPD'' then '' Monitor your oxygen levels closely.'' else []) @
     (if sm then '' Smoking significantly degrades your alveolar capacity.'' else [])"
  by (simp add: advice_def)

lemma copd_example:
  "run_diagnostic str_of (sample_request (PyInt 5) ''COPD'' True True) =
     Inr (PyDict
       [(''score'', PyInt 120), (''risk_level'', PyStr ''High''),
        (''recommendation'', PyStr
           (''Air quality is unhealthy. Limit outdoor exposure and use protective measures.'' @
            '' Monitor your oxygen levels closely.'' @
            '' Smoking significantly degrades your alveolar capacity.'')),
        (''air_quality'', PyDict
           [(''aqi'', PyInt 5), (''pm25'', PyInt 0), (''no2'', PyInt 0), (''so2'', PyInt 0),
            (''co'', PyInt 0)])])"
  by (simp add: diagnostic_eval float_eval)

text \<open>
  Claim C2. In every answered diagnostic request the score before rounding is a finite
  number \<open>x\<close>, and the risk level is Low when \<open>x < 50\<close>, Moderate when \<open>50 \<le> x < 100\<close>, High
  when \<open>100 \<le> x < 150\<close>, Very High when \<open>150 \<le> x < 200\<close> and Hazardous when \<open>200 \<le> x\<close>;
  so exactly 50 is Moderate, exactly 100 High, exactly 150 Very High and exactly 200
  Hazardous.
\<close>

theorem risk_level_bands:
  assumes "run_diagnostic str_of request = Inr v"
  shows "\<exists>x level. raw_score request = Inr (Finite x) \<and>
     py_get v ''risk_level'' PyNone = Inr (PyStr level) \<and>
     (x < 50 \<longrightarrow> level = ''Low'') \<and>
     (50 \<le> x \<and> x < 100 \<longrightarrow> level = ''Moderate'') \<and>
     (100 \<le> x \<and> x < 150 \<longrightarrow> level = ''High'') \<and>
     (150 \<le> x \<and> x < 200 \<longrightarrow> level = ''Very High'') \<and>
     (200 \<le> x \<longrightarrow> level = ''Hazardous'')"
proof -
  from assms obtain x aq where x: "raw_score request = Inr (Finite x)"
    and v: "v = PyDict
          [(''score'', PyInt (rne x)),
           (''risk_level'', PyStr (fst (risk (Finite x)))),
           (''recommendation'', PyStr (advice (DiagnosticRequest.condition request)
               (DiagnosticRequest.smoke request) (snd (risk (Finite x))))),
           (''air_quality'', aq)]"
    by (rule run_result)
  have "py_get v ''risk_level'' PyNone = Inr (PyStr (fst (risk (Finite x))))"
    by (simp add: v dict_get_def)
  moreover have "x < 50 \<longrightarrow> fst (risk (Finite x)) = ''Low''"
    "50 \<le> x \<and> x < 100 \<longrightarrow> fst (risk (Finite x)) = ''Moderate''"
    "100 \<le> x \<and> x < 150 \<longrightarrow> fst (risk (Finite x)) = ''High''"
    "150 \<le> x \<and> x < 200 \<longrightarrow> fst (risk (Finite x)) = ''Very High''"
    "200 \<le> x \<longrightarrow> fst (risk (Finite x)) = ''Hazardous''"
    by (simp_all add: risk_def)
  ultimately show ?thesis using x by blast
qed

theorem risk_level_bands_witness:
  "raw_score (sample_request (PyFloat (Finite (99 / 2))) ''Healthy'' False False) =
     Inr (Finite (99 / 2)) \<and>
   response_field ''risk_level'' (run_diagnostic sample_str
     (sample_request (PyFloat (Finite (99 / 2))) ''Healthy'' False False)) = Inr (PyStr ''Low'') \<and>
   raw_score (sample_request (PyInt 50) ''Healthy'' False False) = Inr (Finite 50) \<and>
   response_field ''risk_level'' (run_diagnostic sample_str
     (sample_request (PyInt 50) ''Healthy'' False False)) = Inr (PyStr ''Moderate'') \<and>
   raw_score (sample_request (PyInt 100) ''Healthy'' False False) = Inr (Finite 100) \<and>
   response_field ''risk_level'' (run_diagnostic sample_str
     (sample_request (PyInt 100) ''Healthy'' False False)) = Inr (PyStr ''High'') \<and>
   raw_score (sample_request (PyInt 150) ''Healthy'' False False) = Inr (Finite 150) \<and>
   response_field ''risk_level'' (run_diagnostic sample_str
     (sample_request (PyInt 150) ''Healthy'' False False)) = Inr (PyStr ''Very High'') \<and>
   raw_score (sample_request (PyInt 200) ''Healthy'' False False) = Inr (Finite 200) \<and>
   response_field ''risk_level'' (run_diagnostic sample_str
     (sample_request (PyInt 200) ''Healthy'' False False)) = Inr (PyStr ''Hazardous'')"
proof -
  have score:
    "raw_score (sample_request (PyFloat (Finite (99 / 2))) ''Healthy'' False False) =
       Inr (Finite (99 / 2))"
    "raw_score (sample_request (PyInt 50) ''Healthy'' False False) = Inr (Finite 50)"
    "raw_score (sample_request (PyInt 100) ''Healthy'' False False) = Inr (Finite 100)"
    "raw_score (sample_request (PyInt 150) ''Healthy'' False False) = Inr (Finite 150)"
    "raw_score (sample_request (PyInt 200) ''Healthy'' False False) = Inr (Finite 200)"
    by (simp_all add: diagnostic_eval float_eval)
  have level: "response_field ''risk_level'' (run_diagnostic sample_str request) =
      Inr (PyStr (if x < 50 then ''Low'' else if x < 100 then ''Moderate''
        else if x < 150 then ''High'' else if x < 200 then ''Very High'' else ''Hazardous''))"
    if "\<exists>v. run_diagnostic sample_str request = Inr v" "raw_score request = Inr (Finite x)"
    for request x
  proof -
    from that obtain v where v: "run_diagnostic sample_str request = Inr v" by blast
    from risk_level_bands [OF v] that(2) show ?thesis
      by (auto simp: response_field_def v)
  qed
  show ?thesis
    using level [OF boundary_runs(1) score(2)] level [OF boundary_runs(2) score(3)]
      level [OF boundary_runs(3) score(4)] level [OF boundary_runs(4) score(5)]
      level [OF boundary_runs(5) score(1)] score
    by simp
qed

text \<open>
  Claim C5. In every answered diagnostic request the recommendation is the base text of
  the risk band of the score, followed by the inhaler reminder if the condition is
  "Asthma" or the oxygen-level reminder if it is "COPD" (nothing for any other condition),
  followed by the smoking warning if the smoke flag is set. Example: \<^verbatim>\<open>aqi\<close> 5, "COPD",
  smoker and drinker gives score 120, High, and the oxygen note before the smoking note.
\<close>

theorem recommendation_order:
  assumes "run_diagnostic str_of request = Inr v"
  shows "(\<exists>x. raw_score request = Inr (Finite x) \<and>
      py_get v ''recommendation'' PyNone = Inr (PyStr
        (snd (risk (Finite x)) @
         (if DiagnosticRequest.condition request = ''Asthma''
            then '' Keep your inhaler accessible.''
          else if DiagnosticRequest.condition request = ''COPD''
            then '' Monitor your oxygen levels closely.''
          else []) @
         (if DiagnosticRequest.smoke request
            then '' Smoking significantly degrades your alveolar capacity.''
          else [])))) \<and>
     raw_score (sample_request (PyInt 5) ''COPD'' True True) = Inr (Finite 120) \<and>
     run_diagnostic str_of (sample_request (PyInt 5) ''COPD'' True True) =
     Inr (PyDict
       [(''score'', PyInt 120), (''risk_level'', PyStr ''High''),
        (''recommendation'', PyStr
           (''Air quality is unhealthy. Limit outdoor exposure and use protective measures.'' @
            '' Monitor your oxygen levels closely.'' @
            '' Smoking significantly degrades your alveolar capacity.'')),
        (''air_quality'', PyDict
           [(''aqi'', PyInt 5), (''pm25'', PyInt 0), (''no2'', PyInt 0), (''so2'', PyInt 0),
            (''co'', PyInt 0)])])"
proof -
  from assms obtain x aq where x: "raw_score request = Inr (Finite x)"
    and v: "v = PyDict
          [(''score'', PyInt (rne x)),
           (''risk_level'', PyStr (fst (risk (Finite x)))),
           (''recommendation'', PyStr (advice (DiagnosticRequest.condition request)
               (DiagnosticRequest.smoke request) (snd (risk (Finite x))))),
           (''air_quality'', aq)]"
    by (rule run_result)
  have "py_get v ''recommendation'' PyNone = Inr (PyStr
        (snd (risk (Finite x)) @
         (if DiagnosticRequest.condition request = ''Asthma''
            then '' Keep your inhaler accessible.''
          else if DiagnosticRequest.condition request = ''COPD''
            then '' Monitor your oxygen levels closely.''
          else []) @
         (if DiagnosticRequest.smoke request
            then '' Smoking significantly degrades your alveolar capacity.''
          else [])))"
    unfolding v advice_append by (simp add: dict_get_def)
  moreover have "raw_score (sample_request (PyInt 5) ''COPD'' True True) = Inr (Finite 120)"
    by (simp add: diagnostic_eval float_eval)
  ultimately show ?thesis using x copd_example by blast
qed

theorem recommendation_order_witness:
  "response_field ''recommendation''
     (run_diagnostic sample_str (sample_request (PyInt 2) ''Asthma'' True False)) =
   Inr (PyStr (''Air quality is moderate. Consider limiting outdoor activities if you have respiratory issues.'' @
     '' Keep your inhaler accessible.'' @
     '' Smoking significantly degrades your alveolar capacity.''))"
proof -
  have r: "run_diagnostic sample_str (sample_request (PyInt 2) ''Asthma'' True False) =
    Inr (PyDict
       [(''score'', PyInt 85), (''risk_level'', PyStr ''Moderate''),
        (''recommendation'', PyStr
           (''Air quality is moderate. Consider limiting outdoor activities if you have respiratory issues.'' @
            '' Keep your inhaler accessible.'' @
            '' Smoking significantly degrades your alveolar capacity.'')),
        (''air_quality'', PyDict
           [(''aqi'', PyInt 2), (''pm25'', PyInt 0), (''no2'', PyInt 0), (''so2'', PyInt 0),
            (''co'', PyInt 0)])])"
    by (simp add: diagnostic_eval float_eval)
  have s: "raw_score (sample_request (PyInt 2) ''Asthma'' True False) = Inr (Finite 85)"
    by (simp add: diagnostic_eval float_eval)
  from recommendation_order [OF r] s show ?thesis
    by (simp add: response_field_def r dict_get_def)
qed

text \<open>
  Claim C10. The returned score is the float score rounded to the nearest integer, a tie
  going to the even one: it is within one half of the score, it is even when it is exactly
  one half away, and it is the score itself when that is an integer. "Asthma" with
  \<^verbatim>\<open>aqi\<close> 1 and no flags has score 2.5 and returns 2; with \<^verbatim>\<open>aqi\<close> 3 it has score 7.5
  and returns 8.
\<close>

theorem score_rounding:
  assumes "run_diagnostic str_of request = Inr v"
  shows "(\<exists>x n. raw_score request = Inr (Finite x) \<and>
       py_get v ''score'' PyNone = Inr (PyInt n) \<and>
       \<bar>x - of_int n\<bar> \<le> 1 / 2 \<and>
       (\<bar>x - of_int n\<bar> = 1 / 2 \<longrightarrow> even n) \<and>
       (x \<in> \<int> \<longrightarrow> of_int n = x)) \<and>
     raw_score (sample_request (PyInt 1) ''Asthma'' False False) = Inr (Finite (5 / 2)) \<and>
     response_field ''score''
       (run_diagnostic str_of (sample_request (PyInt 1) ''Asthma'' False False)) =
       Inr (PyInt 2) \<and>
     raw_score (sample_request (PyInt 3) ''Asthma'' False False) = Inr (Finite (15 / 2)) \<and>
     response_field ''score''
       (run_diagnostic str_of (sample_request (PyInt 3) ''Asthma'' False False)) =
       Inr (PyInt 8)"
proof -
  from assms obtain x aq where x: "raw_score request = Inr (Finite x)"
    and v: "v = PyDict
          [(''score'', PyInt (rne x)),
           (''risk_level'', PyStr (fst (risk (Finite x)))),
           (''recommendation'', PyStr (advice (DiagnosticRequest.condition request)
               (DiagnosticRequest.smoke request) (snd (risk (Finite x))))),
           (''air_quality'', aq)]"
    by (rule run_result)
  have "py_get v ''score'' PyNone = Inr (PyInt (rne x))"
    by (simp add: v dict_get_def)
  with x rne_nearest [of x] rne_tie_even [of x] rne_Ints [of x]
  have "\<exists>x n. raw_score request = Inr (Finite x) \<and>
       py_get v ''score'' PyNone = Inr (PyInt n) \<and>
       \<bar>x - of_int n\<bar> \<le> 1 / 2 \<and>
       (\<bar>x - of_int n\<bar> = 1 / 2 \<longrightarrow> even n) \<and>
       (x \<in> \<int> \<longrightarrow> of_int n = x)"
    by blast
  moreover have
    "raw_score (sample_request (PyInt 1) ''Asthma'' False False) = Inr (Finite (5 / 2))"
    "response_field ''score''
       (run_diagnostic str_of (sample_request (PyInt 1) ''Asthma'' False False)) =
       Inr (PyInt 2)"
    "raw_score (sample_request (PyInt 3) ''Asthma'' False False) = Inr (Finite (15 / 2))"
    "response_field ''score''
       (run_diagnostic str_of (sample_request (PyInt 3) ''Asthma'' False False)) =
       Inr (PyInt 8)"
    by (simp_all add: diagnostic_eval float_eval)
  ultimately show ?thesis by blast
qed

theorem score_rounding_witness:
  "raw_score (sample_request (PyInt 5) ''Asthma'' False True) = Inr (Finite (65 / 2)) \<and>
   response_field ''score''
     (run_diagnostic sample_str (sample_request (PyInt 5) ''Asthma'' False True)) =
     Inr (PyInt 32) \<and>
   raw_score (sample_request (PyInt 4) ''COPD'' True False) = Inr (Finite 96) \<and>
   response_field ''score''
     (run_diagnostic sample_str (sample_request (PyInt 4) ''COPD'' True False)) =
     Inr (PyInt 96)"
proof -
  have r: "\<exists>v. run_diagnostic sample_str (sample_request (PyInt 5) ''Asthma'' False True) = Inr v"
    "\<exists>v. run_diagnostic sample_str (sample_request (PyInt 4) ''COPD'' True False) = Inr v"
    by (simp_all add: diagnostic_eval float_eval)
  from r(1) obtain v1
    where v1: "run_diagnostic sample_str (sample_request (PyInt 5) ''Asthma'' False True) = Inr v1"
    by blast
  from r(2) obtain v2
    where v2: "run_diagnostic sample_str (sample_request (PyInt 4) ''COPD'' True False) = Inr v2"
    by blast
  have s: "raw_score (sample_request (PyInt 5) ''Asthma'' False True) = Inr (Finite (65 / 2))"
    "raw_score (sample_request (PyInt 4) ''COPD'' True False) = Inr (Finite 96)"
    by (simp_all add: diagnostic_eval float_eval)
  from score_rounding [OF v1] obtain x1 n1 where
    x1: "raw_score (sample_request (PyInt 5) ''Asthma'' False True) = Inr (Finite x1)"
    and n1: "py_get v1 ''score'' PyNone = Inr (PyInt n1)" "\<bar>x1 - rat_of_int n1\<bar> \<le> 1 / 2"
       "\<bar>x1 - rat_of_int n1\<bar> = 1 / 2 \<longrightarrow> even n1"
    by blast
  from x1 s(1) have "x1 = 65 / 2" by simp
  with n1(2) have "32 \<le> n1" "n1 \<le> 33" by linarith+
  with n1(3) \<open>x1 = 65 / 2\<close> have "n1 = 32" by (cases "n1 = 33") auto
  from score_rounding [OF v2] obtain x2 n2 where
    x2: "raw_score (sample_request (PyInt 4) ''COPD'' True False) = Inr (Finite x2)"
    and n2: "py_get v2 ''score'' PyNone = Inr (PyInt n2)" "x2 \<in> \<int> \<longrightarrow> rat_of_int n2 = x2"
    by blast
  from x2 s(2) have "x2 = 96" by simp
  with n2(2) have "rat_of_int n2 = 96" by simp
  then have "n2 = 96" by linarith
  show ?thesis
    using s n1(1) n2(1) \<open>n1 = 32\<close> \<open>n2 = 96\<close> by (simp add: response_field_def v1 v2)
qed

section \<open>Properties of the binary64 rounding\<close>

text \<open>The exponent brackets the number between two powers of two.\<close>

lemma expo_bounds_ge1:
  fixes x :: rat
  assumes "1 \<le> \<bar>x\<bar>"
  shows "2 powi (expo x) \<le> \<bar>x\<bar>" "\<bar>x\<bar> < 2 powi (expo x + 1)"
proof -
  define n where "n = \<lfloor>\<bar>x\<bar>\<rfloor>"
  have n: "1 \<le> n" "of_int n \<le> \<bar>x\<bar>" "\<bar>x\<bar> < of_int n + 1"
    using assms unfolding n_def by linarith+
  then have pos: "0 < n" by simp
  from bitlen_bounds [OF pos] have b: "2 ^ nat (bitlen n - 1) \<le> n" "n < 2 ^ nat (bitlen n)"
    by simp_all
  have b1: "1 \<le> bitlen n" using pos by (simp add: bitlen_alt_def)
  have e: "expo x = bitlen n - 1" using assms by (simp add: expo_def n_def)
  have "(2::rat) powi (bitlen n - 1) = of_int (2 ^ nat (bitlen n - 1))"
    using b1 by (simp add: power_int_def)
  also have "\<dots> \<le> of_int n" using b(1) by (simp only: of_int_le_iff)
  finally show "2 powi (expo x) \<le> \<bar>x\<bar>" using n(2) e by simp
  have "n + 1 \<le> 2 ^ nat (bitlen n)" using b(2) by simp
  then have "(of_int (n + 1) :: rat) \<le> of_int (2 ^ nat (bitlen n))"
    by (simp only: of_int_le_iff)
  also have "of_int (2 ^ nat (bitlen n)) = (2::rat) powi (bitlen n)"
    using b1 by (simp add: power_int_def)
  finally show "\<bar>x\<bar> < 2 powi (expo x + 1)" using n(3) e by simp
qed

lemma expo_bounds_lt1:
  fixes x :: rat
  assumes "x \<noteq> 0" "\<bar>x\<bar> < 1"
  shows "2 powi (expo x) \<le> \<bar>x\<bar>" "\<bar>x\<bar> < 2 powi (expo x + 1)"
proof -
  define y where "y = 1 / \<bar>x\<bar>"
  define m where "m = \<lceil>y\<rceil> - 1"
  have xpos: "0 < \<bar>x\<bar>" using assms by simp
  have y1: "1 < y" using assms xpos by (simp add: y_def)
  have m: "of_int m < y" "y \<le> of_int m + 1"
    unfolding m_def by linarith+
  have mpos: "0 < m" using y1 m(2) by linarith
  from bitlen_bounds [OF mpos] have b: "2 ^ nat (bitlen m - 1) \<le> m" "m < 2 ^ nat (bitlen m)"
    by simp_all
  have b1: "1 \<le> bitlen m" using mpos by (simp add: bitlen_alt_def)
  have e: "expo x = - bitlen m" using assms by (simp add: expo_def m_def y_def)
  have xy: "\<bar>x\<bar> = 1 / y" using xpos by (simp add: y_def)
  have ypos: "0 < y" using y1 by simp
  have "m + 1 \<le> 2 ^ nat (bitlen m)" using b(2) by simp
  then have "(of_int (m + 1) :: rat) \<le> of_int (2 ^ nat (bitlen m))"
    by (simp only: of_int_le_iff)
  then have "y \<le> 2 ^ nat (bitlen m)" using m(2) by simp
  then have "1 / (2 ^ nat (bitlen m)) \<le> 1 / y"
    using ypos by (simp add: frac_le)
  moreover have "(2::rat) powi (- bitlen m) = 1 / (2 ^ nat (bitlen m))"
    using b1 by (simp add: power_int_minus_divide power_int_nonneg_exp)
  ultimately show "2 powi (expo x) \<le> \<bar>x\<bar>" using e xy by simp
  have "(of_int (2 ^ nat (bitlen m - 1)) :: rat) \<le> of_int m"
    using b(1) by (simp only: of_int_le_iff)
  then have "(2::rat) ^ nat (bitlen m - 1) \<le> of_int m" by simp
  then have lt: "2 ^ nat (bitlen m - 1) < y" using m(1) by linarith
  have "1 / y < 1 / (2 ^ nat (bitlen m - 1))"
    using lt by (simp add: frac_less2)
  moreover have "(2::rat) powi (- bitlen m + 1) = 1 / (2 ^ nat (bitlen m - 1))"
    using b1 power_int_minus_divide [of "2::rat" "bitlen m - 1"]
    by (simp add: power_int_nonneg_exp)
  ultimately show "\<bar>x\<bar> < 2 powi (expo x + 1)" using e xy by simp
qed


lemma expo_bounds:
  fixes x :: rat
  assumes "x \<noteq> 0"
  shows "2 powi (expo x) \<le> \<bar>x\<bar>" "\<bar>x\<bar> < 2 powi (expo x + 1)"
proof -
  show "2 powi (expo x) \<le> \<bar>x\<bar>"
    using expo_bounds_ge1(1) [of x] expo_bounds_lt1(1) [of x] assms by (cases "1 \<le> \<bar>x\<bar>") auto
  show "\<bar>x\<bar> < 2 powi (expo x + 1)"
    using expo_bounds_ge1(2) [of x] expo_bounds_lt1(2) [of x] assms by (cases "1 \<le> \<bar>x\<bar>") auto
qed

lemma powi2_less_imp: "(2::rat) powi a < 2 powi b \<Longrightarrow> a < b"
  using power_int_increasing [of b a "2::rat"] by (cases "a < b") auto

lemma expo_unique:
  fixes x :: rat
  assumes "2 powi e \<le> \<bar>x\<bar>" "\<bar>x\<bar> < 2 powi (e + 1)"
  shows "expo x = e"
proof -
  have "(0::rat) < 2 powi e" by simp
  with assms(1) have "0 < \<bar>x\<bar>" by linarith
  then have nz: "x \<noteq> 0" by simp
  from expo_bounds [OF nz] assms have "(2::rat) powi (expo x) < 2 powi (e + 1)"
    "(2::rat) powi e < 2 powi (expo x + 1)"
    by linarith+
  then have "expo x < e + 1" "e < expo x + 1" by (auto dest: powi2_less_imp)
  then show ?thesis by simp
qed

lemma expo_mono:
  fixes x y :: rat
  assumes "x \<noteq> 0" "\<bar>x\<bar> \<le> \<bar>y\<bar>"
  shows "expo x \<le> expo y"
proof -
  have "y \<noteq> 0" using assms by auto
  from expo_bounds(1) [OF assms(1)] expo_bounds(2) [OF this] assms(2)
  have "(2::rat) powi (expo x) < 2 powi (expo y + 1)" by linarith
  then show ?thesis by (auto dest: powi2_less_imp)
qed

lemma expo_minus [simp]: "expo (- x) = expo x"
  by (simp add: expo_def)

lemma ulp_minus [simp]: "ulp (- x) = ulp x"
  by (simp add: ulp_def)

lemma ulp_pos [simp]: "0 < ulp x"
  by (simp add: ulp_def)

lemma rne_mono: "x \<le> y \<Longrightarrow> rne x \<le> rne y"
proof -
  assume xy: "x \<le> y"
  have fx: "of_int \<lfloor>x\<rfloor> \<le> x" "x < of_int \<lfloor>x\<rfloor> + 1" by linarith+
  have fy: "of_int \<lfloor>y\<rfloor> \<le> y" "y < of_int \<lfloor>y\<rfloor> + 1" by linarith+
  have le: "\<lfloor>x\<rfloor> \<le> \<lfloor>y\<rfloor>" using xy by (rule floor_mono)
  show ?thesis
  proof (cases "\<lfloor>x\<rfloor> = \<lfloor>y\<rfloor>")
    case True
    then show ?thesis using xy unfolding rne_def Let_def by auto
  next
    case False
    with le have "\<lfloor>x\<rfloor> + 1 \<le> \<lfloor>y\<rfloor>" by simp
    moreover have "rne x \<le> \<lfloor>x\<rfloor> + 1" using rne_cases [of x] by auto
    moreover have "\<lfloor>y\<rfloor> \<le> rne y" using rne_cases [of y] by auto
    ultimately show ?thesis by linarith
  qed
qed

lemma rne_le: "x \<le> of_int n \<Longrightarrow> rne x \<le> n"
  using rne_mono [of x "of_int n"] by simp

lemma rne_ge: "of_int n \<le> x \<Longrightarrow> n \<le> rne x"
  using rne_mono [of "of_int n" x] by simp

lemma rne_minus: "rne (- x) = - rne x"
proof (cases "x \<in> \<int>")
  case True
  then obtain n where "x = of_int n" by (auto elim: Ints_cases)
  then have "- x = of_int (- n)" by simp
  then show ?thesis using \<open>x = of_int n\<close> by (simp only: rne_of_int)
next
  case False
  then have "x \<noteq> of_int \<lfloor>x\<rfloor>"
    by (metis Ints_of_int)
  then have fl: "\<lfloor>- x\<rfloor> = - \<lfloor>x\<rfloor> - 1"
    by (simp add: floor_minus ceiling_altdef)
  have fx: "of_int \<lfloor>x\<rfloor> \<le> x" "x < of_int \<lfloor>x\<rfloor> + 1" by linarith+
  show ?thesis
    unfolding rne_def Let_def fl using fx by (auto simp: algebra_simps)
qed

lemma ulp_nz [simp]: "ulp x \<noteq> 0"
  by (simp add: ulp_def)

lemma ulp_nonneg [simp]: "0 \<le> ulp x"
  by (simp add: ulp_def)

lemma rne_0 [simp]: "rne 0 = 0"
  using rne_of_int [of 0] by simp

lemma round_ulp_minus: "round_ulp (- x) = - round_ulp x"
  by (simp add: round_ulp_def rne_minus)

lemma round_ulp_0 [simp]: "round_ulp 0 = 0"
  by (simp add: round_ulp_def)

lemma round_ulp_nonneg: "0 \<le> x \<Longrightarrow> 0 \<le> round_ulp x"
proof -
  assume "0 \<le> x"
  then have "of_int 0 \<le> x / ulp x" by (simp add: zero_le_divide_iff less_imp_le)
  then have "0 \<le> rne (x / ulp x)" by (rule rne_ge)
  then show ?thesis by (simp add: round_ulp_def zero_le_mult_iff)
qed

text \<open>A positive number is rounded to something between the powers of two around it.\<close>

lemma round_ulp_upper:
  assumes "0 < x"
  shows "round_ulp x \<le> 2 powi (max (expo x) (- 1022) + 1)"
proof -
  let ?E = "max (expo x) (- 1022)"
  have nz: "x \<noteq> 0" using assms by simp
  have "x < 2 powi (expo x + 1)" using expo_bounds(2) [OF nz] assms by simp
  also have "\<dots> \<le> 2 powi (?E + 1)" by (rule power_int_increasing) auto
  finally have "x \<le> 2 powi (?E + 1)" by simp
  moreover have split: "(2::rat) powi (?E + 1) = 2 powi 53 * ulp x"
  proof -
    have "(2::rat) powi (53 + (?E - 52)) = 2 powi 53 * 2 powi (?E - 52)"
      by (rule power_int_add) simp
    moreover have "53 + (?E - 52) = ?E + 1" by simp
    ultimately show ?thesis by (metis ulp_def)
  qed
  ultimately have "x / ulp x \<le> 2 powi 53"
    by (simp add: pos_divide_le_eq)
  then have "x / ulp x \<le> of_int (2 ^ 53)" by simp
  then have "rne (x / ulp x) \<le> 2 ^ 53" by (rule rne_le)
  then have "(of_int (rne (x / ulp x)) :: rat) \<le> of_int (2 ^ 53)" by (simp only: of_int_le_iff)
  then have "round_ulp x \<le> of_int (2 ^ 53) * ulp x"
    unfolding round_ulp_def by (rule mult_right_mono) (simp add: less_imp_le)
  then show ?thesis using split by simp
qed

lemma round_ulp_lower:
  assumes "0 < x" "- 1022 \<le> expo x"
  shows "2 powi (expo x) \<le> round_ulp x"
proof -
  have nz: "x \<noteq> 0" using assms by simp
  have E: "max (expo x) (- 1022) = expo x" using assms by simp
  have split: "(2::rat) powi (expo x) = 2 powi 52 * ulp x"
  proof -
    have "(2::rat) powi (52 + (expo x - 52)) = 2 powi 52 * 2 powi (expo x - 52)"
      by (rule power_int_add) simp
    moreover have "52 + (expo x - 52) = expo x" by simp
    ultimately show ?thesis by (metis ulp_def E)
  qed
  have "2 powi (expo x) \<le> x" using expo_bounds(1) [OF nz] assms by simp
  then have "2 powi 52 \<le> x / ulp x"
    using split by (simp add: pos_le_divide_eq)
  then have "of_int (2 ^ 52) \<le> x / ulp x" by simp
  then have "2 ^ 52 \<le> rne (x / ulp x)" by (rule rne_ge)
  then have "(of_int (2 ^ 52) :: rat) \<le> of_int (rne (x / ulp x))" by (simp only: of_int_le_iff)
  then have "of_int (2 ^ 52) * ulp x \<le> round_ulp x"
    unfolding round_ulp_def by (rule mult_right_mono) (simp add: less_imp_le)
  then show ?thesis using split by simp
qed

lemma round_ulp_mono_pos:
  assumes "0 < x" "x \<le> y"
  shows "round_ulp x \<le> round_ulp y"
proof -
  have nz: "x \<noteq> 0" and ypos: "0 < y" using assms by auto
  have "expo x \<le> expo y" using expo_mono [OF nz, of y] assms by simp
  then have le: "max (expo x) (- 1022) \<le> max (expo y) (- 1022)" by simp
  show ?thesis
  proof (cases "max (expo x) (- 1022) = max (expo y) (- 1022)")
    case True
    then have u: "ulp x = ulp y" by (simp add: ulp_def)
    have "x / ulp y \<le> y / ulp y" using assms by (simp add: divide_right_mono less_imp_le)
    then have "rne (x / ulp y) \<le> rne (y / ulp y)" by (rule rne_mono)
    then have "(of_int (rne (x / ulp y)) :: rat) \<le> of_int (rne (y / ulp y))"
      by (simp only: of_int_le_iff)
    then show ?thesis unfolding round_ulp_def u
      by (rule mult_right_mono) (simp add: less_imp_le)
  next
    case False
    with le have lt: "max (expo x) (- 1022) < max (expo y) (- 1022)" by linarith
    then have ey: "- 1022 \<le> expo y" "max (expo y) (- 1022) = expo y"
      by linarith+
    have "round_ulp x \<le> 2 powi (max (expo x) (- 1022) + 1)"
      using assms(1) by (rule round_ulp_upper)
    also have "\<dots> \<le> 2 powi (expo y)"
    proof (rule power_int_increasing)
      show "max (expo x) (- 1022) + 1 \<le> expo y" using lt ey(2) by linarith
    qed simp
    also have "\<dots> \<le> round_ulp y" using ypos ey(1) by (rule round_ulp_lower)
    finally show ?thesis .
  qed
qed

lemma round_ulp_mono:
  assumes "x \<le> y"
  shows "round_ulp x \<le> round_ulp y"
proof -
  consider "0 < x" | "x \<le> 0" "0 \<le> y" | "y < 0" by linarith
  then show ?thesis
  proof cases
    case 1
    then show ?thesis using assms by (rule round_ulp_mono_pos)
  next
    case 2
    have "0 \<le> round_ulp (- x)" using 2(1) by (intro round_ulp_nonneg) simp
    then have "round_ulp x \<le> 0" by (simp add: round_ulp_minus)
    also have "0 \<le> round_ulp y" using 2(2) by (rule round_ulp_nonneg)
    finally show ?thesis .
  next
    case 3
    then have "0 < - y" "- y \<le> - x" using assms by auto
    then have "round_ulp (- y) \<le> round_ulp (- x)" by (rule round_ulp_mono_pos)
    then show ?thesis by (simp add: round_ulp_minus)
  qed
qed

lemma b64_not_NaN [simp]: "b64 x \<noteq> NaN"
  by (simp add: b64_def Let_def)

lemma b64_mono:
  assumes "x \<le> y"
  shows "fle (b64 x) (b64 y)"
proof -
  have m: "round_ulp x \<le> round_ulp y" using assms by (rule round_ulp_mono)
  have px: "0 < x \<Longrightarrow> 0 \<le> round_ulp x" by (simp add: round_ulp_nonneg)
  have nx: "\<not> 0 < x \<Longrightarrow> round_ulp x \<le> 0"
    using round_ulp_nonneg [of "- x"] by (simp add: round_ulp_minus)
  have py: "0 < y \<Longrightarrow> 0 \<le> round_ulp y" by (simp add: round_ulp_nonneg)
  have ny: "\<not> 0 < y \<Longrightarrow> round_ulp y \<le> 0"
    using round_ulp_nonneg [of "- y"] by (simp add: round_ulp_minus)
  show ?thesis
    using m px nx py ny assms unfolding b64_def Let_def
    by (auto simp: abs_if split: if_splits)
qed

text \<open>A number with at most 53 significant bits and a large enough exponent is not changed.\<close>

lemma round_ulp_exact:
  assumes k: "\<bar>k\<bar> < 2 ^ 53" and j: "- 1074 \<le> j"
  shows "round_ulp (of_int k * 2 powi j) = of_int k * 2 powi j"
proof (cases "k = 0")
  case True
  then show ?thesis by simp
next
  case False
  let ?x = "of_int k * (2::rat) powi j"
  have nz: "?x \<noteq> 0" using False by simp
  have "\<bar>?x\<bar> = of_int \<bar>k\<bar> * 2 powi j" by (simp add: abs_mult)
  also have "\<dots> < of_int (2 ^ 53) * 2 powi j"
    using k by (intro mult_strict_right_mono) (simp_all only: of_int_less_iff zero_less_power_int zero_less_numeral)
  also have "\<dots> = 2 powi (53 + j)"
    by (subst power_int_add) auto
  finally have "\<bar>?x\<bar> < 2 powi (53 + j)" .
  with expo_bounds(1) [OF nz] have "(2::rat) powi (expo ?x) < 2 powi (53 + j)" by linarith
  then have "expo ?x < 53 + j" by (rule powi2_less_imp)
  with j have d: "0 \<le> j - (max (expo ?x) (- 1022) - 52)" by simp
  define d where "d = j - (max (expo ?x) (- 1022) - 52)"
  have u: "ulp ?x = 2 powi (j - d)" by (simp add: ulp_def d_def)
  have "(2::rat) powi j = 2 powi d * 2 powi (j - d)"
    by (subst power_int_add [symmetric]) auto
  then have q: "?x / ulp ?x = of_int k * 2 powi d"
    unfolding u by simp
  have "(2::rat) powi d = of_int (2 ^ nat d)"
    using d by (simp add: d_def power_int_nonneg_exp)
  then have "?x / ulp ?x = of_int (k * 2 ^ nat d)"
    using q by simp
  then have "rne (?x / ulp ?x) = k * 2 ^ nat d"
    by (simp only: rne_of_int)
  then have "round_ulp ?x = of_int (k * 2 ^ nat d) * ulp ?x"
    by (simp add: round_ulp_def)
  also have "\<dots> = (?x / ulp ?x) * ulp ?x"
    using \<open>?x / ulp ?x = of_int (k * 2 ^ nat d)\<close> by simp
  also have "\<dots> = ?x" by simp
  finally show ?thesis .
qed

lemma b64_exact_half:
  assumes "\<bar>k\<bar> < 2 ^ 53"
  shows "b64 (of_int k / 2) = Finite (of_int k / 2)"
proof -
  have x: "(of_int k / 2 :: rat) = of_int k * 2 powi (- 1)" by simp
  have r: "round_ulp (of_int k / 2) = of_int k / 2"
    unfolding x using assms by (rule round_ulp_exact) simp
  have "\<bar>(of_int k :: rat)\<bar> < of_int (2 ^ 53)"
    using assms by (simp only: of_int_abs [symmetric] of_int_less_iff)
  then have "\<bar>of_int k / 2 :: rat\<bar> < 2 ^ 1024" by simp
  then show ?thesis by (simp add: b64_def r)
qed

section \<open>The score before rounding\<close>

lemma b64_dyadic:
  assumes "\<bar>k\<bar> < 2 ^ 53" "x = of_int k / 2"
  shows "b64 x = Finite x"
  unfolding assms(2) using assms(1) by (rule b64_exact_half)

lemma float_of_int_exact:
  assumes "\<bar>n\<bar> \<le> 10 ^ 15"
  shows "float_of_int n = Inr (Finite (of_int n))"
proof -
  have "b64 (of_int n) = Finite (of_int n)"
    by (rule b64_dyadic [where k = "2 * n"]) (use assms in auto)
  then show ?thesis by (simp add: float_of_int_def)
qed

text \<open>The three operations on an integer index of moderate size, for a multiplier \<open>h / 2\<close>.\<close>

lemma score_exact_aux:
  assumes n: "\<bar>n\<bar> \<le> 10 ^ 15" and h: "h = 2 \<or> h = 5 \<or> h = 8"
  shows "mul_float (PyInt n) (Finite (of_int h / 2)) = Inr (Finite (of_int n * (of_int h / 2)))"
    and "lifestyle sm dr (Finite (of_int n * (of_int h / 2))) =
         Finite (of_int n * (of_int h / 2) + (if sm then 80 else 0) + (if dr then 20 else 0))"
proof -
  have b: "\<bar>n * h\<bar> \<le> 8 * 10 ^ 15"
    using n h by (auto simp: abs_mult)
  have m: "b64 (of_int n * (of_int h / 2)) = Finite (of_int n * (of_int h / 2))"
    by (rule b64_dyadic [where k = "n * h"]) (use b in auto)
  have s1: "b64 (of_int n * (of_int h / 2) + 80) = Finite (of_int n * (of_int h / 2) + 80)"
    by (rule b64_dyadic [where k = "n * h + 160"]) (use b in auto)
  have s2: "b64 (of_int n * (of_int h / 2) + 20) = Finite (of_int n * (of_int h / 2) + 20)"
    by (rule b64_dyadic [where k = "n * h + 40"]) (use b in auto)
  have s3: "b64 (of_int n * (of_int h / 2) + 80 + 20) =
      Finite (of_int n * (of_int h / 2) + 80 + 20)"
    by (rule b64_dyadic [where k = "n * h + 200"]) (use b in auto)
  show "mul_float (PyInt n) (Finite (of_int h / 2)) = Inr (Finite (of_int n * (of_int h / 2)))"
    using m by (simp add: float_of_int_exact [OF n])
  show "lifestyle sm dr (Finite (of_int n * (of_int h / 2))) =
         Finite (of_int n * (of_int h / 2) + (if sm then 80 else 0) + (if dr then 20 else 0))"
    using s1 s2 s3 by (simp add: lifestyle_def)
qed

lemma fle_b64 [simp]: "fle NegInf (b64 x)" "fle (b64 x) PosInf"
  by (simp_all add: b64_def Let_def)

lemma fmul_mono:
  assumes "fle a1 a2" "0 < m"
  shows "fle (fmul a1 (Finite m)) (fmul a2 (Finite m))"
proof (cases a1)
  case (Finite x1)
  then show ?thesis
    using assms by (cases a2) (auto simp: inf_times_def intro!: b64_mono)
next
  case PosInf
  then show ?thesis using assms by (cases a2) (auto simp: inf_times_def)
next
  case NegInf
  then show ?thesis using assms by (cases a2) (auto simp: inf_times_def)
next
  case NaN
  then show ?thesis using assms by simp
qed

lemma fadd_mono:
  assumes "fle s1 s2"
  shows "fle (fadd s1 (Finite c)) (fadd s2 (Finite c))"
proof (cases s1)
  case (Finite x1)
  then show ?thesis using assms by (cases s2) (auto intro!: b64_mono)
next
  case PosInf
  then show ?thesis using assms by (cases s2) auto
next
  case NegInf
  then show ?thesis using assms by (cases s2) auto
next
  case NaN
  then show ?thesis using assms by simp
qed

lemma lifestyle_mono:
  "fle s1 s2 \<Longrightarrow> fle (lifestyle sm dr s1) (lifestyle sm dr s2)"
  by (simp add: lifestyle_def fadd_mono)

lemma multiplier_cases:
  "multiplier c = Finite (if c = ''Asthma'' then 5 / 2 else if c = ''COPD'' then 4 else 1)"
  by (simp add: multiplier_def condition_multipliers_def)

lemma multiplier_pos: "\<exists>m. multiplier c = Finite m \<and> 0 < m"
  by (simp add: multiplier_cases)

lemma float_of_int_mono:
  assumes "n1 \<le> n2" "float_of_int n1 = Inr a1" "float_of_int n2 = Inr a2"
  shows "fle a1 a2"
proof -
  have "fle (b64 (of_int n1)) (b64 (of_int n2))"
    using assms(1) by (intro b64_mono) simp
  moreover have "b64 (of_int n1) = a1" "b64 (of_int n2) = a2"
    using assms(2,3) by (auto simp: float_of_int_def split: pyfloat.splits)
  ultimately show ?thesis by simp
qed

lemma score_of_mono_int:
  assumes "n1 \<le> n2" "score_of (PyInt n1) c sm dr = Inr s1" "score_of (PyInt n2) c sm dr = Inr s2"
  shows "fle s1 s2"
proof -
  obtain m where m: "multiplier c = Finite m" "0 < m" using multiplier_pos by blast
  from assms(2) obtain a1 where a1: "float_of_int n1 = Inr a1"
    "s1 = lifestyle sm dr (fmul a1 (Finite m))"
    by (auto simp: score_of_def m split: sum.splits)
  from assms(3) obtain a2 where a2: "float_of_int n2 = Inr a2"
    "s2 = lifestyle sm dr (fmul a2 (Finite m))"
    by (auto simp: score_of_def m split: sum.splits)
  have "fle a1 a2" using assms(1) a1(1) a2(1) by (rule float_of_int_mono)
  then show ?thesis unfolding a1 a2 using m(2) by (intro lifestyle_mono fmul_mono)
qed

lemma score_of_mono_float:
  assumes "fle a1 a2"
  shows "\<exists>s1 s2. score_of (PyFloat a1) c sm dr = Inr s1 \<and>
           score_of (PyFloat a2) c sm dr = Inr s2 \<and> fle s1 s2"
proof -
  obtain m where m: "multiplier c = Finite m" "0 < m" using multiplier_pos by blast
  have "fle (lifestyle sm dr (fmul a1 (Finite m))) (lifestyle sm dr (fmul a2 (Finite m)))"
    using assms m(2) by (intro lifestyle_mono fmul_mono)
  then show ?thesis by (simp add: score_of_def m)
qed

lemma score_of_exact:
  assumes "\<bar>n\<bar> \<le> 10 ^ 15"
  shows "score_of (PyInt n) c sm dr =
     Inr (Finite (of_int n * (if c = ''Asthma'' then 5 / 2 else if c = ''COPD'' then 4 else 1) +
                  (if sm then 80 else 0) + (if dr then 20 else 0)))"
proof -
  define h :: int where "h = (if c = ''Asthma'' then 5 else if c = ''COPD'' then 8 else 2)"
  have h: "h = 2 \<or> h = 5 \<or> h = 8" by (simp add: h_def)
  have m: "multiplier c = Finite (of_int h / 2)"
    by (simp add: multiplier_cases h_def)
  have v: "(of_int h / 2 :: rat) = (if c = ''Asthma'' then 5 / 2 else if c = ''COPD'' then 4 else 1)"
    by (simp add: h_def)
  show ?thesis
    unfolding score_of_def m score_exact_aux(1) [OF assms h]
    using score_exact_aux(2) [OF assms h, of sm dr] v by simp
qed

lemma raw_score_aqi:
  "get_aqi (DiagnosticRequest.air_data r) = Inr aqi \<Longrightarrow>
   raw_score r = score_of aqi (DiagnosticRequest.condition r) (DiagnosticRequest.smoke r)
     (DiagnosticRequest.drink r)"
  by (simp add: raw_score_def)

text \<open>
  Claim C3, as amended. The score before rounding is the binary64 result of
  \<^verbatim>\<open>aqi * multiplier\<close>, then \<^verbatim>\<open>+ 80\<close> for a smoker, then \<^verbatim>\<open>+ 20\<close> for a drinker. For an
  integer \<^verbatim>\<open>aqi\<close> of magnitude at most \<open>10 ^ 15\<close> the three operations are exact: the score
  is \<open>aqi * multiplier\<close> plus 80 if smoke plus 20 if drink, so that each flag adds its
  amount whatever the other flag and the condition are. With condition and flags fixed the
  score is monotonically non-decreasing in \<^verbatim>\<open>aqi\<close>, for integers (whenever both scores are
  computed) and for floats.
\<close>

theorem score_exact_and_monotone:
  "(get_aqi (DiagnosticRequest.air_data r) = Inr (PyInt n) \<and> \<bar>n\<bar> \<le> 10 ^ 15 \<longrightarrow>
      raw_score r = Inr (Finite
        (of_int n * (if DiagnosticRequest.condition r = ''Asthma'' then 5 / 2
                     else if DiagnosticRequest.condition r = ''COPD'' then 4 else 1) +
         (if DiagnosticRequest.smoke r then 80 else 0) +
         (if DiagnosticRequest.drink r then 20 else 0)))) \<and>
   (DiagnosticRequest.condition r1 = DiagnosticRequest.condition r2 \<and>
    DiagnosticRequest.smoke r1 = DiagnosticRequest.smoke r2 \<and>
    DiagnosticRequest.drink r1 = DiagnosticRequest.drink r2 \<and>
    get_aqi (DiagnosticRequest.air_data r1) = Inr (PyInt n1) \<and>
    get_aqi (DiagnosticRequest.air_data r2) = Inr (PyInt n2) \<and> n1 \<le> n2 \<and>
    raw_score r1 = Inr s1 \<and> raw_score r2 = Inr s2 \<longrightarrow> fle s1 s2) \<and>
   (DiagnosticRequest.condition r1 = DiagnosticRequest.condition r2 \<and>
    DiagnosticRequest.smoke r1 = DiagnosticRequest.smoke r2 \<and>
    DiagnosticRequest.drink r1 = DiagnosticRequest.drink r2 \<and>
    get_aqi (DiagnosticRequest.air_data r1) = Inr (PyFloat a1) \<and>
    get_aqi (DiagnosticRequest.air_data r2) = Inr (PyFloat a2) \<and> fle a1 a2 \<longrightarrow>
    (\<exists>t1 t2. raw_score r1 = Inr t1 \<and> raw_score r2 = Inr t2 \<and> fle t1 t2))"
proof (intro conjI impI)
  assume "get_aqi (DiagnosticRequest.air_data r) = Inr (PyInt n) \<and> \<bar>n\<bar> \<le> 10 ^ 15"
  then show "raw_score r = Inr (Finite
        (of_int n * (if DiagnosticRequest.condition r = ''Asthma'' then 5 / 2
                     else if DiagnosticRequest.condition r = ''COPD'' then 4 else 1) +
         (if DiagnosticRequest.smoke r then 80 else 0) +
         (if DiagnosticRequest.drink r then 20 else 0)))"
    by (simp only: raw_score_aqi score_of_exact)
next
  assume a: "DiagnosticRequest.condition r1 = DiagnosticRequest.condition r2 \<and>
    DiagnosticRequest.smoke r1 = DiagnosticRequest.smoke r2 \<and>
    DiagnosticRequest.drink r1 = DiagnosticRequest.drink r2 \<and>
    get_aqi (DiagnosticRequest.air_data r1) = Inr (PyInt n1) \<and>
    get_aqi (DiagnosticRequest.air_data r2) = Inr (PyInt n2) \<and> n1 \<le> n2 \<and>
    raw_score r1 = Inr s1 \<and> raw_score r2 = Inr s2"
  then have p: "DiagnosticRequest.condition r1 = DiagnosticRequest.condition r2"
    "DiagnosticRequest.smoke r1 = DiagnosticRequest.smoke r2"
    "DiagnosticRequest.drink r1 = DiagnosticRequest.drink r2"
    "get_aqi (DiagnosticRequest.air_data r1) = Inr (PyInt n1)"
    "get_aqi (DiagnosticRequest.air_data r2) = Inr (PyInt n2)"
    "raw_score r1 = Inr s1" "raw_score r2 = Inr s2"
    by blast+
  have "score_of (PyInt n1) (DiagnosticRequest.condition r2) (DiagnosticRequest.smoke r2)
       (DiagnosticRequest.drink r2) = Inr s1"
    "score_of (PyInt n2) (DiagnosticRequest.condition r2) (DiagnosticRequest.smoke r2)
       (DiagnosticRequest.drink r2) = Inr s2"
    using p(6) p(7) unfolding raw_score_aqi [OF p(4)] raw_score_aqi [OF p(5)] p(1,2,3)
    by simp_all
  with a show "fle s1 s2" by (blast intro: score_of_mono_int)
next
  assume a: "DiagnosticRequest.condition r1 = DiagnosticRequest.condition r2 \<and>
    DiagnosticRequest.smoke r1 = DiagnosticRequest.smoke r2 \<and>
    DiagnosticRequest.drink r1 = DiagnosticRequest.drink r2 \<and>
    get_aqi (DiagnosticRequest.air_data r1) = Inr (PyFloat a1) \<and>
    get_aqi (DiagnosticRequest.air_data r2) = Inr (PyFloat a2) \<and> fle a1 a2"
  then have p: "DiagnosticRequest.condition r1 = DiagnosticRequest.condition r2"
    "DiagnosticRequest.smoke r1 = DiagnosticRequest.smoke r2"
    "DiagnosticRequest.drink r1 = DiagnosticRequest.drink r2"
    "get_aqi (DiagnosticRequest.air_data r1) = Inr (PyFloat a1)"
    "get_aqi (DiagnosticRequest.air_data r2) = Inr (PyFloat a2)"
    "fle a1 a2"
    by blast+
  from score_of_mono_float [OF p(6), of "DiagnosticRequest.condition r2"
      "DiagnosticRequest.smoke r2" "DiagnosticRequest.drink r2"]
  show "\<exists>t1 t2. raw_score r1 = Inr t1 \<and> raw_score r2 = Inr t2 \<and> fle t1 t2"
    unfolding raw_score_aqi [OF p(4)] raw_score_aqi [OF p(5)] p(1,2,3) .
qed

theorem score_exact_and_monotone_witness:
  "raw_score (sample_request (PyInt 5) ''COPD'' True True) = Inr (Finite 120) \<and>
   raw_score (sample_request (PyInt 5) ''COPD'' False True) = Inr (Finite 40) \<and>
   raw_score (sample_request (PyInt 5) ''COPD'' True False) = Inr (Finite 100) \<and>
   raw_score (sample_request (PyInt 5) ''COPD'' False False) = Inr (Finite 20) \<and>
   raw_score (sample_request (PyInt 2) ''Asthma'' True False) = Inr (Finite 85) \<and>
   raw_score (sample_request (PyInt 3) ''Asthma'' True False) = Inr (Finite (175 / 2)) \<and>
   fle (Finite 85) (Finite (175 / 2)) \<and>
   raw_score (sample_request (PyFloat (Finite (1 / 2))) ''Healthy'' False False) =
     Inr (Finite (1 / 2)) \<and>
   raw_score (sample_request (PyFloat PosInf) ''Healthy'' False False) = Inr PosInf \<and>
   fle (Finite (1 / 2)) PosInf"
proof -
  have g: "get_aqi (DiagnosticRequest.air_data (sample_request a c sm dr)) = Inr a"
    "DiagnosticRequest.condition (sample_request a c sm dr) = c"
    "DiagnosticRequest.smoke (sample_request a c sm dr) = sm"
    "DiagnosticRequest.drink (sample_request a c sm dr) = dr"
    for a c sm dr
    by (simp_all add: sample_request_def get_aqi_def dict_get_def)
  have e: "raw_score (sample_request (PyInt n) c sm dr) = Inr (Finite
        (of_int n * (if c = ''Asthma'' then 5 / 2 else if c = ''COPD'' then 4 else 1) +
         (if sm then 80 else 0) + (if dr then 20 else 0)))"
    if "\<bar>n\<bar> \<le> 10 ^ 15" for n c sm dr
    using score_exact_and_monotone [of "sample_request (PyInt n) c sm dr" n] that
    by (simp add: g)
  have f: "raw_score (sample_request (PyFloat (Finite (1 / 2))) ''Healthy'' False False) =
     Inr (Finite (1 / 2))"
    "raw_score (sample_request (PyFloat PosInf) ''Healthy'' False False) = Inr PosInf"
    by (simp_all add: diagnostic_eval float_eval inf_times_def)
  show ?thesis
    using e [of 5 "''COPD''" True True] e [of 5 "''COPD''" False True]
      e [of 5 "''COPD''" True False] e [of 5 "''COPD''" False False]
      e [of 2 "''Asthma''" True False] e [of 3 "''Asthma''" True False] f
    by simp
qed

text \<open>
  The additions are float additions: beyond the range of exact arithmetic they are
  rounded. At \<^verbatim>\<open>aqi\<close> \<open>2 ^ 60\<close> the spacing of binary64 numbers is 256, and neither 80 nor 20
  changes the score.
\<close>

theorem score_absorbs_penalty:
  "raw_score (sample_request (PyInt 1152921504606846976) ''Healthy'' False False) =
     Inr (Finite 1152921504606846976) \<and>
   raw_score (sample_request (PyInt 1152921504606846976) ''Healthy'' True False) =
     Inr (Finite 1152921504606846976) \<and>
   raw_score (sample_request (PyInt 1152921504606846976) ''Healthy'' False True) =
     Inr (Finite 1152921504606846976) \<and>
   response_field ''score'' (run_diagnostic sample_str
     (sample_request (PyInt 1152921504606846976) ''Healthy'' False False)) =
     Inr (PyInt 1152921504606846976) \<and>
   response_field ''score'' (run_diagnostic sample_str
     (sample_request (PyInt 1152921504606846976) ''Healthy'' True False)) =
     Inr (PyInt 1152921504606846976)"
  by (simp add: diagnostic_eval float_eval)

section \<open>Missing and malformed fields\<close>


















end
